theory Spec2Isabelle
  imports Main "HOL-Library.AList"
begin

section \<open>The session provider's user object\<close>

text \<open>
  The identity provider hands the client a user object whose \<open>unsafeMetadata\<close> is a
  free-form object; the application stores one attribute in it, \<open>role\<close>, a string.
  An absent object or attribute is JavaScript's \<open>undefined\<close>, here \<open>None\<close>.
\<close>

type_synonym metadata = "string \<rightharpoonup> string"

record clerk_user =
  unsafeMetadata :: "metadata option"

text \<open>
  Truthiness of a value that is either \<open>undefined\<close> or a string: \<open>undefined\<close> and the
  empty string are falsy, every other string is truthy.
\<close>

definition truthy :: "string option \<Rightarrow> bool" where
  "truthy v = (case v of None \<Rightarrow> False | Some s \<Rightarrow> s \<noteq> [])"

text \<open>The expression \<^verbatim>\<open>user?.unsafeMetadata?.role\<close>.\<close>

definition role_of :: "clerk_user option \<Rightarrow> string option" where
  "role_of user =
     (case user of
        None \<Rightarrow> None
      | Some u \<Rightarrow> (case unsafeMetadata u of None \<Rightarrow> None | Some m \<Rightarrow> m ''role''))"

section \<open>Router guard: \<^verbatim>\<open>src/components/protected-route.jsx\<close>\<close>

text \<open>
  What the component returns: \<^verbatim>\<open>null\<close>, a \<^verbatim>\<open><Navigate to=... />\<close> element (the flag
  is its \<^verbatim>\<open>replace\<close> attribute) or the children it was given.
\<close>

datatype 'c element = Null | Navigate string bool | Children 'c

definition ProtectedRoute ::
  "bool \<Rightarrow> bool \<Rightarrow> clerk_user option \<Rightarrow> string \<Rightarrow> string option \<Rightarrow> 'c \<Rightarrow> 'c element" where
  "ProtectedRoute isLoaded isSignedIn user pathname requiredRole children =
     (if \<not> isLoaded then Null
      else if \<not> isSignedIn then Navigate ''/?sign-in=true'' False
      else
        let r = role_of user in
        if truthy requiredRole \<and> r \<noteq> requiredRole then Navigate ''/'' True
        else if r = Some ''admin'' \<and> pathname \<noteq> ''/admin'' then Navigate ''/admin'' False
        else if r \<noteq> Some ''admin'' \<and> pathname = ''/admin'' then Navigate ''/'' True
        else if \<not> truthy r \<and> pathname \<noteq> ''/onboarding'' then Navigate ''/onboarding'' False
        else Children children)"

subsection \<open>The decision table of the specification\<close>

text \<open>
  The specification describes the guard as an ordered table of rules, the first matching
  rule giving the outcome. \<open>guard_table\<close> is that table, written from the specification;
  \<open>first_match\<close> reads it. A role or a required role is \<^emph>\<open>set\<close> when it is a non-empty
  string, which is how the component tests it.
\<close>

datatype 'c decision = Suspend | RedirectTo string | Render 'c

fun first_match :: "(bool \<times> 'a) list \<Rightarrow> 'a option" where
  "first_match [] = None"
| "first_match ((c, d) # rules) = (if c then Some d else first_match rules)"

definition is_set :: "string option \<Rightarrow> bool" where
  "is_set v = (v \<noteq> None \<and> v \<noteq> Some [])"

definition guard_table ::
  "bool \<Rightarrow> bool \<Rightarrow> string option \<Rightarrow> string \<Rightarrow> string option \<Rightarrow> 'c \<Rightarrow> (bool \<times> 'c decision) list" where
  "guard_table loaded signedIn rl pathname requiredRole dest =
     [(\<not> loaded, Suspend),
      (\<not> signedIn, RedirectTo ''/?sign-in=true''),
      (is_set requiredRole \<and> rl \<noteq> requiredRole, RedirectTo ''/''),
      (rl = Some ''admin'' \<and> pathname \<noteq> ''/admin'', RedirectTo ''/admin''),
      (rl \<noteq> Some ''admin'' \<and> pathname = ''/admin'', RedirectTo ''/''),
      (\<not> is_set rl \<and> pathname \<noteq> ''/onboarding'', RedirectTo ''/onboarding''),
      (True, Render dest)]"

fun decision_of :: "'c element \<Rightarrow> 'c decision" where
  "decision_of Null = Suspend"
| "decision_of (Navigate to _) = RedirectTo to"
| "decision_of (Children c) = Render c"

text \<open>A signed-in principal whose profile carries the given role attribute.\<close>

definition signed_in_user :: "string option \<Rightarrow> clerk_user option" where
  "signed_in_user rl =
     Some \<lparr>unsafeMetadata = (case rl of None \<Rightarrow> None | Some s \<Rightarrow> Some [''role'' \<mapsto> s])\<rparr>"

section \<open>Role assignment: \<^verbatim>\<open>src/pages/onboarding.jsx\<close>\<close>

text \<open>
  The page's world: the principal's user object held by the session provider, the router's
  history (most recent entry first; \<^verbatim>\<open>navigate\<close> pushes onto it) and the console.
\<close>

datatype console_entry = ConsoleLog string | ConsoleError string string

record page =
  user :: clerk_user
  history :: "string list"
  console :: "console_entry list"

text \<open>
  The session provider's \<^verbatim>\<open>user.update\<close>: the provider either rejects the call with an
  error, leaving the profile as it was, or resolves, and then the profile's
  \<open>unsafeMetadata\<close> is the object passed in (the provider overwrites it). Whether it
  rejects is the provider's choice, an input of the model.
\<close>

definition update :: "string option \<Rightarrow> metadata \<Rightarrow> clerk_user \<Rightarrow> string + clerk_user" where
  "update rejection md u =
     (case rejection of
        Some err \<Rightarrow> Inl err
      | None \<Rightarrow> Inr (u\<lparr>unsafeMetadata := Some md\<rparr>))"

definition navigate :: "string \<Rightarrow> page \<Rightarrow> page" where
  "navigate to p = p\<lparr>history := to # history p\<rparr>"

definition navigateUser :: "string \<Rightarrow> page \<Rightarrow> page" where
  "navigateUser currRole p =
     navigate (if currRole = ''recruiter'' then ''/post-job'' else ''/jobs'') p"

definition handleRoleSelection :: "string option \<Rightarrow> string \<Rightarrow> page \<Rightarrow> page" where
  "handleRoleSelection rejection rl p =
     (case update rejection [''role'' \<mapsto> rl] (user p) of
        Inr u \<Rightarrow>
          navigateUser rl
            (p\<lparr>user := u, console := console p @ [ConsoleLog (''Role updated to: '' @ rl)]\<rparr>)
      | Inl err \<Rightarrow> p\<lparr>console := console p @ [ConsoleError ''Error updating role:'' err]\<rparr>)"

section \<open>JavaScript values\<close>

text \<open>
  Database rows, identity-provider payloads and response bodies are JSON; a missing
  property reads as \<open>undefined\<close>. Numbers are the integers the tables hold. An object is
  the list of its properties in insertion order, so a spread followed by assignments is
  \<open>AList.update\<close>: an existing key keeps its place and gets the new value, a new key goes
  to the end.
\<close>

datatype js =
    Undefined
  | JNull
  | JBool bool
  | JNum int
  | JStr string
  | JArr "js list"
  | JObj "(string \<times> js) list"

type_synonym row = "(string \<times> js) list"

text \<open>Truthiness, as \<^verbatim>\<open>if (v)\<close>, \<^verbatim>\<open>!v\<close> and \<^verbatim>\<open>v || d\<close> read it.\<close>

fun js_truthy :: "js \<Rightarrow> bool" where
  "js_truthy Undefined = False"
| "js_truthy JNull = False"
| "js_truthy (JBool b) = b"
| "js_truthy (JNum n) = (n \<noteq> 0)"
| "js_truthy (JStr s) = (s \<noteq> [])"
| "js_truthy (JArr _) = True"
| "js_truthy (JObj _) = True"

definition nullish :: "js \<Rightarrow> bool" where
  "nullish v = (v = Undefined \<or> v = JNull)"

text \<open>
  \<open>field k r\<close> is \<^verbatim>\<open>r.k\<close> on a row object. \<open>property k v\<close> is \<^verbatim>\<open>v.k\<close> for a named
  key on a value that is not \<open>null\<close> or \<open>undefined\<close> (only objects have such a property)
  and \<open>first_of v\<close> is \<^verbatim>\<open>v[0]\<close>: the first element of an array, the first character of a
  string, the property \<open>0\<close> of an object.
\<close>

definition field :: "string \<Rightarrow> row \<Rightarrow> js" where
  "field k r = (case map_of r k of None \<Rightarrow> Undefined | Some v \<Rightarrow> v)"

fun property :: "string \<Rightarrow> js \<Rightarrow> js" where
  "property k (JObj kvs) = field k kvs"
| "property k _ = Undefined"

fun first_of :: "js \<Rightarrow> js" where
  "first_of (JArr xs) = (case xs of [] \<Rightarrow> Undefined | x # _ \<Rightarrow> x)"
| "first_of (JStr s) = (case s of [] \<Rightarrow> Undefined | c # _ \<Rightarrow> JStr [c])"
| "first_of (JObj kvs) = field ''0'' kvs"
| "first_of _ = Undefined"

definition js_or :: "js \<Rightarrow> js \<Rightarrow> js" where
  "js_or v d = (if js_truthy v then v else d)"

text \<open>
  Template literals: \<open>decimal\<close> prints a natural number, \<open>template v\<close> is \<^verbatim>\<open>`${v}`\<close>
  (an array prints its elements separated by commas, \<open>null\<close> and \<open>undefined\<close> elements
  as nothing).
\<close>

fun decimal :: "nat \<Rightarrow> string" where
  "decimal n =
     (if n < 10 then [char_of (48 + n)] else decimal (n div 10) @ [char_of (48 + n mod 10)])"

declare decimal.simps [simp del]

fun join :: "string list \<Rightarrow> string" where
  "join [] = []"
| "join [x] = x"
| "join (x # y # ys) = x @ '','' @ join (y # ys)"

fun template :: "js \<Rightarrow> string" where
  "template Undefined = ''undefined''"
| "template JNull = ''null''"
| "template (JBool b) = (if b then ''true'' else ''false'')"
| "template (JNum n) = (if n < 0 then CHR ''-'' # decimal (nat (- n)) else decimal (nat n))"
| "template (JStr s) = s"
| "template (JArr xs) = join (map (\<lambda>x. if x = Undefined \<or> x = JNull then [] else template x) xs)"
| "template (JObj _) = ''[object Object]''"


section \<open>The database client\<close>

text \<open>
  Both programs reach the database through the same client library. A call is a query built
  by chaining (\<^verbatim>\<open>from(t).select(cols).eq(k, v)\<close> and so on) and awaited; the promise
  either rejects (the message is \<open>Inl\<close>) or resolves to an object \<^verbatim>\<open>{ data, error }\<close>, of
  which at most one is set; an error is represented by its message. The flag of \<open>Insert\<close>,
  \<open>Update\<close> and \<open>Delete\<close> says whether \<^verbatim>\<open>.select()\<close> follows, asking for the affected
  rows; the last component of \<open>Select\<close> is \<^verbatim>\<open>.order(column, { ascending })\<close>. \<open>Upload\<close> is
  \<^verbatim>\<open>storage.from(bucket).upload(name, file)\<close>. The client is a parameter of every
  function that uses it, together with the state \<open>'s\<close> of whatever answers.
\<close>

type_synonym pg_error = string

record 'a reply =
  data :: "'a option"
  error :: "pg_error option"

datatype filter = Eq string js | ILike string string

datatype query =
    Select string string "filter list" "(string \<times> bool) option"
  | Insert string "row list" bool
  | Update string row "filter list" bool
  | Delete string "filter list" bool
  | Upload string string js

type_synonym 's client = "query \<Rightarrow> 's \<Rightarrow> (string + row list reply) \<times> 's"

text \<open>
  \<^verbatim>\<open>.single()\<close> asks for exactly one row: the reply carries the row itself, or an error
  when the rows are none or several.
\<close>

definition single :: "'s client \<Rightarrow> query \<Rightarrow> 's \<Rightarrow> (string + row reply) \<times> 's" where
  "single supabase q s =
     (case supabase q s of
        (Inl m, s') \<Rightarrow> (Inl m, s')
      | (Inr r, s') \<Rightarrow>
          (Inr (case error r of
                  Some e \<Rightarrow> \<lparr>data = None, error = Some e\<rparr>
                | None \<Rightarrow>
                    (case data r of
                       Some [x] \<Rightarrow> \<lparr>data = Some x, error = None\<rparr>
                     | _ \<Rightarrow> \<lparr>data = None, error = Some ''PGRST116''\<rparr>)), s'))"

subsection \<open>A database of tables\<close>

text \<open>
  \<open>exec\<close> is a client that answers from tables. Each table is the list of its rows;
  \<open>serial\<close> is the next generated id; \<open>issued\<close> records every query received. What the
  programs cannot decide is a field of the database: \<open>faults\<close> says which queries fail and
  how (an error reply, or a rejected promise), \<open>deletable\<close> is the row-level policy of the
  key in use (a delete skips, without an error, the rows the policy withholds),
  \<open>ilike\<close> is the pattern matching of the database, \<open>expand\<close> its evaluation of a select
  list other than \<open>*\<close> (named columns, embedded resources) and \<open>before\<close> its ordering
  of column values. An equality filter holds for a row whose column has the given value, and
  never for \<open>null\<close>.
\<close>

datatype fault = Fails pg_error | Rejects string

record database =
  tables :: "string \<Rightarrow> row list"
  serial :: nat
  issued :: "query list"
  faults :: "query \<Rightarrow> fault option"
  deletable :: "string \<Rightarrow> row \<Rightarrow> bool"
  ilike :: "string \<Rightarrow> js \<Rightarrow> bool"
  expand :: "string \<Rightarrow> row \<Rightarrow> row"
  before :: "js \<Rightarrow> js \<Rightarrow> bool"

fun matches :: "database \<Rightarrow> row \<Rightarrow> filter \<Rightarrow> bool" where
  "matches db r (Eq k v) = (map_of r k = Some v \<and> v \<noteq> JNull)"
| "matches db r (ILike k pat) = ilike db pat (field k r)"

definition selected :: "database \<Rightarrow> filter list \<Rightarrow> row \<Rightarrow> bool" where
  "selected db fs r = list_all (matches db r) fs"

definition project :: "database \<Rightarrow> string \<Rightarrow> row \<Rightarrow> row" where
  "project db cols r = (if cols = ''*'' then r else expand db cols r)"

fun place :: "database \<Rightarrow> string \<Rightarrow> bool \<Rightarrow> row \<Rightarrow> row list \<Rightarrow> row list" where
  "place db k asc r [] = [r]"
| "place db k asc r (x # xs) =
     (if (if asc then before db (field k x) (field k r) else before db (field k r) (field k x))
      then x # place db k asc r xs else r # x # xs)"

definition ordered :: "database \<Rightarrow> (string \<times> bool) option \<Rightarrow> row list \<Rightarrow> row list" where
  "ordered db ord rs =
     (case ord of None \<Rightarrow> rs | Some (k, asc) \<Rightarrow> foldr (place db k asc) rs [])"

fun number :: "nat \<Rightarrow> row list \<Rightarrow> row list" where
  "number n [] = []"
| "number n (r # rs) =
     (if map_of r ''id'' = None then (''id'', JNum (int n)) # r else r) # number (Suc n) rs"

definition assign :: "row \<Rightarrow> row \<Rightarrow> row" where
  "assign vals r = foldl (\<lambda>acc (k, v). AList.update k v acc) r vals"

definition exec :: "database client" where
  "exec q db =
     (let db1 = db\<lparr>issued := issued db @ [q]\<rparr> in
      case faults db q of
        Some (Rejects m) \<Rightarrow> (Inl m, db1)
      | Some (Fails e) \<Rightarrow> (Inr \<lparr>data = None, error = Some e\<rparr>, db1)
      | None \<Rightarrow>
          (case q of
             Select t cols fs ord \<Rightarrow>
               (Inr \<lparr>data = Some (map (project db cols)
                                    (ordered db ord (filter (selected db fs) (tables db t)))),
                     error = None\<rparr>, db1)
           | Insert t rows sel \<Rightarrow>
               (let new = number (serial db) rows in
                (Inr \<lparr>data = (if sel then Some new else None), error = None\<rparr>,
                 db1\<lparr>tables := (tables db)(t := tables db t @ new),
                     serial := serial db + length rows\<rparr>))
           | Update t vals fs sel \<Rightarrow>
               (Inr \<lparr>data = (if sel then Some (map (assign vals)
                                                 (filter (selected db fs) (tables db t)))
                              else None),
                     error = None\<rparr>,
                db1\<lparr>tables := (tables db)
                      (t := map (\<lambda>r. if selected db fs r then assign vals r else r)
                              (tables db t))\<rparr>)
           | Delete t fs sel \<Rightarrow>
               (let gone = filter (\<lambda>r. selected db fs r \<and> deletable db t r) (tables db t) in
                (Inr \<lparr>data = (if sel then Some gone else None), error = None\<rparr>,
                 db1\<lparr>tables := (tables db)
                       (t := filter (\<lambda>r. \<not> (selected db fs r \<and> deletable db t r))
                               (tables db t))\<rparr>))
           | Upload bucket name file \<Rightarrow>
               (Inr \<lparr>data = None, error = None\<rparr>,
                db1\<lparr>tables := (tables db)
                      (bucket := tables db bucket @ [[(''name'', JStr name), (''file'', file)]])\<rparr>)))"


section \<open>Data-access wrappers: \<^verbatim>\<open>src/api/apiJobs.js\<close> and the applications API\<close>

text \<open>
  Every wrapper is an \<^verbatim>\<open>async\<close> function: it returns a value (\<open>Inr\<close>) or throws (\<open>Inl\<close>);
  a rejected database promise is thrown on as it is. The client parameter stands for
  \<^verbatim>\<open>await supabaseClient(token)\<close>. Console output of the wrappers is left out. The three
  filters of \<open>getJobs\<close> are strings or \<open>undefined\<close>, and a filter is added when its value is
  truthy. The companies API (\<^verbatim>\<open>apiCompanies.js\<close>) is outside this development.
\<close>

datatype thrown = Rejected string | Raised pg_error | Error string | TypeError

definition rows_value :: "row list option \<Rightarrow> js" where
  "rows_value d = (case d of None \<Rightarrow> JNull | Some rs \<Rightarrow> JArr (map JObj rs))"

definition row_value :: "row option \<Rightarrow> js" where
  "row_value d = (case d of None \<Rightarrow> JNull | Some r \<Rightarrow> JObj r)"

definition text_filter :: "string option \<Rightarrow> (string \<Rightarrow> filter) \<Rightarrow> filter list" where
  "text_filter v f = (case v of None \<Rightarrow> [] | Some s \<Rightarrow> if s \<noteq> [] then [f s] else [])"

definition getJobs ::
  "'s client \<Rightarrow> string option \<Rightarrow> string option \<Rightarrow> string option \<Rightarrow> 's \<Rightarrow> (thrown + js) \<times> 's" where
  "getJobs supabase location company_id searchQuery s =
     (case supabase
         (Select ''jobs'' ''*, saved: saved_jobs(id), company: companies(name,logo_url)''
            (text_filter location (\<lambda>v. Eq ''location'' (JStr v))
             @ text_filter company_id (\<lambda>v. Eq ''company_id'' (JStr v))
             @ text_filter searchQuery (\<lambda>v. ILike ''title'' (''%'' @ v @ ''%'')))
            None) s of
        (Inl m, s') \<Rightarrow> (Inl (Rejected m), s')
      | (Inr r, s') \<Rightarrow>
          (if error r \<noteq> None then (Inr JNull, s') else (Inr (rows_value (data r)), s')))"

definition getSavedJobs :: "'s client \<Rightarrow> 's \<Rightarrow> (thrown + js) \<times> 's" where
  "getSavedJobs supabase s =
     (case supabase
         (Select ''saved_jobs'' ''*, job: jobs(*, company: companies(name,logo_url))'' [] None) s of
        (Inl m, s') \<Rightarrow> (Inl (Rejected m), s')
      | (Inr r, s') \<Rightarrow>
          (if error r \<noteq> None then (Inr JNull, s') else (Inr (rows_value (data r)), s')))"

definition getSingleJob :: "'s client \<Rightarrow> js \<Rightarrow> 's \<Rightarrow> (thrown + js) \<times> 's" where
  "getSingleJob supabase job_id s =
     (case single supabase
         (Select ''jobs''
            ''*, company: companies(name,logo_url), applications: applications(*)''
            [Eq ''id'' job_id] None) s of
        (Inl m, s') \<Rightarrow> (Inl (Rejected m), s')
      | (Inr r, s') \<Rightarrow>
          (if error r \<noteq> None then (Inr JNull, s') else (Inr (row_value (data r)), s')))"

definition updateHiringStatus :: "'s client \<Rightarrow> js \<Rightarrow> js \<Rightarrow> 's \<Rightarrow> (thrown + js) \<times> 's" where
  "updateHiringStatus supabase job_id isOpen s =
     (case supabase (Update ''jobs'' [(''isOpen'', isOpen)] [Eq ''id'' job_id] True) s of
        (Inl m, s') \<Rightarrow> (Inl (Rejected m), s')
      | (Inr r, s') \<Rightarrow>
          (if error r \<noteq> None then (Inr JNull, s') else (Inr (rows_value (data r)), s')))"

definition getMyJobs :: "'s client \<Rightarrow> js \<Rightarrow> 's \<Rightarrow> (thrown + js) \<times> 's" where
  "getMyJobs supabase recruiter_id s =
     (case supabase
         (Select ''jobs'' ''*, company: companies(name,logo_url)''
            [Eq ''recruiter_id'' recruiter_id] None) s of
        (Inl m, s') \<Rightarrow> (Inl (Rejected m), s')
      | (Inr r, s') \<Rightarrow>
          (if error r \<noteq> None then (Inr JNull, s') else (Inr (rows_value (data r)), s')))"

definition deleteJob :: "'s client \<Rightarrow> js \<Rightarrow> 's \<Rightarrow> (thrown + js) \<times> 's" where
  "deleteJob supabase job_id s =
     (case single supabase (Select ''jobs'' ''*'' [Eq ''id'' job_id] None) s of
        (Inl m, s1) \<Rightarrow> (Inl (Rejected m), s1)
      | (Inr existingJob, s1) \<Rightarrow>
          (case error existingJob of
             Some fetchError \<Rightarrow> (Inl (Error (''Job not found: '' @ fetchError)), s1)
           | None \<Rightarrow>
               (case supabase (Delete ''jobs'' [Eq ''id'' job_id] True) s1 of
                  (Inl m, s2) \<Rightarrow> (Inl (Rejected m), s2)
                | (Inr r, s2) \<Rightarrow>
                    (case error r of
                       Some deleteError \<Rightarrow>
                         (Inl (Error (''Failed to delete job: '' @ deleteError)), s2)
                     | None \<Rightarrow>
                         (case data r of
                            None \<Rightarrow> (Inl (Error ''Job was not deleted - check permissions''), s2)
                          | Some [] \<Rightarrow>
                              (Inl (Error ''Job was not deleted - check permissions''), s2)
                          | Some rs \<Rightarrow> (Inr (JArr (map JObj rs)), s2))))))"

definition addNewJob :: "'s client \<Rightarrow> row \<Rightarrow> 's \<Rightarrow> (thrown + js) \<times> 's" where
  "addNewJob supabase jobData s =
     (case supabase (Insert ''jobs'' [jobData] True) s of
        (Inl m, s') \<Rightarrow> (Inl (Rejected m), s')
      | (Inr r, s') \<Rightarrow>
          (if error r \<noteq> None then (Inl (Error ''Error Creating Job''), s')
           else (Inr (rows_value (data r)), s')))"

definition applyToJob :: "'s client \<Rightarrow> string \<Rightarrow> nat \<Rightarrow> row \<Rightarrow> 's \<Rightarrow> (thrown + js) \<times> 's" where
  "applyToJob supabase supabaseUrl random jobData s =
     (let fileName = ''resume-'' @ decimal random @ ''-'' @ template (field ''candidate_id'' jobData) in
      case supabase (Upload ''resumes'' fileName (field ''resume'' jobData)) s of
        (Inl m, s1) \<Rightarrow> (Inl (Rejected m), s1)
      | (Inr stored, s1) \<Rightarrow>
          if error stored \<noteq> None then (Inl (Error ''Error uploading Resume''), s1)
          else
            (let resume = supabaseUrl @ ''/storage/v1/object/public/resumes/'' @ fileName in
             case supabase
                 (Insert ''applications'' [AList.update ''resume'' (JStr resume) jobData] True) s1 of
               (Inl m, s2) \<Rightarrow> (Inl (Rejected m), s2)
             | (Inr r, s2) \<Rightarrow>
                 (if error r \<noteq> None then (Inl (Error ''Error submitting Application''), s2)
                  else (Inr (rows_value (data r)), s2))))"

definition updateApplicationStatus ::
  "'s client \<Rightarrow> js \<Rightarrow> js \<Rightarrow> 's \<Rightarrow> (thrown + js) \<times> 's" where
  "updateApplicationStatus supabase job_id status s =
     (case supabase (Update ''applications'' [(''status'', status)] [Eq ''job_id'' job_id] True) s of
        (Inl m, s') \<Rightarrow> (Inl (Rejected m), s')
      | (Inr r, s') \<Rightarrow>
          (if error r \<noteq> None then (Inr JNull, s')
           else
             (case data r of
                None \<Rightarrow> (Inl TypeError, s')
              | Some rs \<Rightarrow> if length rs = 0 then (Inr JNull, s') else (Inr (JArr (map JObj rs)), s'))))"

definition getApplications :: "'s client \<Rightarrow> js \<Rightarrow> 's \<Rightarrow> (thrown + js) \<times> 's" where
  "getApplications supabase user_id s =
     (case supabase
         (Select ''applications'' ''*, job:jobs(title, company:companies(name))''
            [Eq ''candidate_id'' user_id] None) s of
        (Inl m, s') \<Rightarrow> (Inl (Rejected m), s')
      | (Inr r, s') \<Rightarrow>
          (if error r \<noteq> None then (Inr JNull, s') else (Inr (rows_value (data r)), s')))"

text \<open>
  The argument of \<open>saveJob\<close>, as the job card passes it: the identity provider's user id
  and the job's id.
\<close>

record save_data =
  user_id :: string
  job_id :: int

definition saveJob :: "'s client \<Rightarrow> save_data \<Rightarrow> 's \<Rightarrow> (thrown + js) \<times> 's" where
  "saveJob supabase saveData s =
     (case supabase
         (Select ''saved_jobs'' ''id''
            [Eq ''user_id'' (JStr (user_id saveData)), Eq ''job_id'' (JNum (job_id saveData))]
            None) s of
        (Inl m, s1) \<Rightarrow> (Inl (Rejected m), s1)
      | (Inr existing, s1) \<Rightarrow>
          (case error existing of
             Some checkError \<Rightarrow> (Inl (Raised checkError), s1)
           | None \<Rightarrow>
               if (case data existing of None \<Rightarrow> False | Some existingSaves \<Rightarrow> length existingSaves > 0)
               then
                 (case supabase
                     (Delete ''saved_jobs''
                        [Eq ''job_id'' (JNum (job_id saveData)),
                         Eq ''user_id'' (JStr (user_id saveData))] False) s1 of
                    (Inl m, s2) \<Rightarrow> (Inl (Rejected m), s2)
                  | (Inr r, s2) \<Rightarrow>
                      (case error r of
                         Some deleteError \<Rightarrow> (Inl (Raised deleteError), s2)
                       | None \<Rightarrow> (Inr (JArr []), s2)))
               else
                 (case supabase
                     (Insert ''saved_jobs''
                        [[(''user_id'', JStr (user_id saveData)),
                          (''job_id'', JNum (job_id saveData))]] True) s1 of
                    (Inl m, s2) \<Rightarrow> (Inl (Rejected m), s2)
                  | (Inr r, s2) \<Rightarrow>
                      (case error r of
                         Some insertError \<Rightarrow> (Inl (Raised insertError), s2)
                       | None \<Rightarrow> (Inr (rows_value (data r)), s2)))))"

text \<open>One constructor for each wrapper, with its arguments.\<close>

datatype api_call =
    GetJobs "string option" "string option" "string option"
  | GetSavedJobs
  | GetSingleJob js
  | SaveJob save_data
  | UpdateHiringStatus js js
  | GetMyJobs js
  | DeleteJob js
  | AddNewJob row
  | ApplyToJob string nat row
  | UpdateApplicationStatus js js
  | GetApplications js

fun invoke :: "'s client \<Rightarrow> api_call \<Rightarrow> 's \<Rightarrow> (thrown + js) \<times> 's" where
  "invoke supabase (GetJobs l c q) s = getJobs supabase l c q s"
| "invoke supabase GetSavedJobs s = getSavedJobs supabase s"
| "invoke supabase (GetSingleJob j) s = getSingleJob supabase j s"
| "invoke supabase (SaveJob d) s = saveJob supabase d s"
| "invoke supabase (UpdateHiringStatus j b) s = updateHiringStatus supabase j b s"
| "invoke supabase (GetMyJobs r) s = getMyJobs supabase r s"
| "invoke supabase (DeleteJob j) s = deleteJob supabase j s"
| "invoke supabase (AddNewJob d) s = addNewJob supabase d s"
| "invoke supabase (ApplyToJob url n d) s = applyToJob supabase url n d s"
| "invoke supabase (UpdateApplicationStatus j st) s = updateApplicationStatus supabase j st s"
| "invoke supabase (GetApplications u) s = getApplications supabase u s"

subsection \<open>A database that answers from a script\<close>

text \<open>
  \<open>scripted\<close> is a client that answers the successive queries with the successive entries
  of a script, whatever the queries are; every behaviour of a database during one call
  of a wrapper is such a script. \<open>consumed c script\<close> are the answers the call \<open>c\<close> received,
  and \<open>signals_error c script\<close> says that one of them carried an error.
\<close>

fun scripted :: "(string + row list reply) list client" where
  "scripted q [] = (Inl ''no answer'', [])"
| "scripted q (r # rs) = (r, rs)"

definition failed :: "string + row list reply \<Rightarrow> bool" where
  "failed r = (case r of Inl _ \<Rightarrow> False | Inr a \<Rightarrow> error a \<noteq> None)"

definition consumed :: "api_call \<Rightarrow> (string + row list reply) list \<Rightarrow> (string + row list reply) list" where
  "consumed c script = take (length script - length (snd (invoke scripted c script))) script"

definition signals_error :: "api_call \<Rightarrow> (string + row list reply) list \<Rightarrow> bool" where
  "signals_error c script = list_ex failed (consumed c script)"

section \<open>Administrative server: \<^verbatim>\<open>server.js\<close>\<close>

text \<open>
  A handler sends one response: a status and a JSON body (the value passed to
  \<^verbatim>\<open>res.json\<close>). The identity provider is a parameter \<open>clerk\<close>: for the recruiter id of
  a job (the value spliced into the request's URL) it says how \<^verbatim>\<open>fetch\<close> ends: rejected,
  or answered with the \<^verbatim>\<open>ok\<close> flag and the parsed body (\<open>None\<close> when parsing throws). The
  lookups of the rows are independent, and \<^verbatim>\<open>Promise.all\<close> keeps the rows' order, so the
  fan-out is a \<open>map\<close>. Console output is left out. The job id of the delete route is the
  value the database compares the \<open>id\<close> column with.
\<close>

record http_response =
  status :: nat
  body :: js

datatype fetch_outcome = Unreachable string | Answered bool "js option"

definition email_of :: "js \<Rightarrow> js" where
  "email_of recruiter =
     (let addresses = property ''email_addresses'' recruiter in
      if nullish addresses then Undefined
      else
        let entry = first_of addresses in
        if nullish entry then Undefined else property ''email_address'' entry)"

definition enriched :: "row \<Rightarrow> js \<Rightarrow> js \<Rightarrow> js" where
  "enriched job recruiter_email recruiter_name =
     JObj (AList.update ''companies'' (JObj [(''name'', JStr ''N/A'')])
            (AList.update ''recruiter_name'' recruiter_name
              (AList.update ''recruiter_email'' recruiter_email job)))"

definition with_recruiter :: "(js \<Rightarrow> fetch_outcome) \<Rightarrow> row \<Rightarrow> js" where
  "with_recruiter clerk job =
     (case clerk (field ''recruiter_id'' job) of
        Unreachable err \<Rightarrow> enriched job (JStr ''N/A'') (JStr ''N/A'')
      | Answered ok payload \<Rightarrow>
          if ok then
            (case payload of
               None \<Rightarrow> enriched job (JStr ''N/A'') (JStr ''N/A'')
             | Some recruiter \<Rightarrow>
                 if nullish recruiter then enriched job (JStr ''N/A'') (JStr ''N/A'')
                 else enriched job (js_or (email_of recruiter) (JStr ''N/A''))
                        (js_or (property ''first_name'' recruiter) (JStr ''N/A'')))
          else enriched job (JStr ''N/A'') (JStr ''N/A''))"

definition api_get_jobs :: "'s client \<Rightarrow> (js \<Rightarrow> fetch_outcome) \<Rightarrow> 's \<Rightarrow> http_response \<times> 's" where
  "api_get_jobs supabase clerk s =
     (case supabase (Select ''jobs'' ''*'' [] (Some (''created_at'', False))) s of
        (Inl m, s') \<Rightarrow>
          (\<lparr>status = 500,
            body = JObj [(''error'', JStr ''Failed to fetch jobs''), (''details'', JStr m)]\<rparr>, s')
      | (Inr r, s') \<Rightarrow>
          (case error r of
             Some e \<Rightarrow>
               (\<lparr>status = 500,
                 body = JObj [(''error'', JStr ''Failed to fetch jobs''),
                              (''details'', JObj [(''message'', JStr e)])]\<rparr>, s')
           | None \<Rightarrow>
               (case data r of
                  None \<Rightarrow> (\<lparr>status = 200, body = JArr []\<rparr>, s')
                | Some jobs \<Rightarrow>
                    if length jobs = 0 then (\<lparr>status = 200, body = JArr []\<rparr>, s')
                    else (\<lparr>status = 200, body = JArr (map (with_recruiter clerk) jobs)\<rparr>, s'))))"

definition api_delete_job :: "'s client \<Rightarrow> js \<Rightarrow> 's \<Rightarrow> http_response \<times> 's" where
  "api_delete_job supabase jobId s =
     (case single supabase (Select ''jobs'' ''*'' [Eq ''id'' jobId] None) s of
        (Inl m, s1) \<Rightarrow>
          (\<lparr>status = 500, body = JObj [(''error'', JStr ''Server error deleting job'')]\<rparr>, s1)
      | (Inr existingJob, s1) \<Rightarrow>
          if error existingJob \<noteq> None
          then (\<lparr>status = 404, body = JObj [(''error'', JStr ''Job not found'')]\<rparr>, s1)
          else
            (case supabase (Delete ''jobs'' [Eq ''id'' jobId] True) s1 of
               (Inl m, s2) \<Rightarrow>
                 (\<lparr>status = 500, body = JObj [(''error'', JStr ''Server error deleting job'')]\<rparr>,
                  s2)
             | (Inr r, s2) \<Rightarrow>
                 if error r \<noteq> None
                 then (\<lparr>status = 500, body = JObj [(''error'', JStr ''Failed to delete job'')]\<rparr>,
                       s2)
                 else
                   (case data r of
                      None \<Rightarrow>
                        (\<lparr>status = 500,
                          body = JObj [(''error'', JStr ''Job deletion failed - no rows affected'')]\<rparr>,
                         s2)
                    | Some [] \<Rightarrow>
                        (\<lparr>status = 500,
                          body = JObj [(''error'', JStr ''Job deletion failed - no rows affected'')]\<rparr>,
                         s2)
                    | Some (deleted # others) \<Rightarrow>
                        (\<lparr>status = 200,
                          body = JObj [(''message'', JStr ''Job deleted successfully''),
                                       (''deletedJob'', JObj deleted),
                                       (''rowsAffected'', JNum (int (length (deleted # others))))]\<rparr>,
                         s2))))"

section \<open>Vocabulary of the properties\<close>

text \<open>
  \<open>saved db d\<close>: the table of saved jobs holds a record for the pair \<open>d\<close>. \<open>with_id\<close>: the
  job rows that the handler's filter selects. \<open>lookup_fails\<close>: the identity lookup was
  rejected or answered with a status that is not ok. \<open>plain_database\<close> is a database
  without faults in which every row may be deleted; it reads a select list other than
  \<open>*\<close> as the name of one column and keeps the order of the rows.

  Two readings of what an element of the listing is to its row. \<open>carries job element\<close>
  follows the words of the specification: the element is the row, every property
  unchanged, followed by the three added properties \<open>recruiter_email\<close>, \<open>recruiter_name\<close>
  and \<open>companies\<close>, the last being \<^verbatim>\<open>{ name: "N/A" }\<close>. \<open>extends job element\<close> is what an
  object literal that spreads the row and then assigns the three gives: the element has the
  row's keys in the row's order, followed by those of the three that the row does not have;
  every property other than the three is unchanged; \<open>recruiter_email\<close> and
  \<open>recruiter_name\<close> hold truthy values (so that serialising keeps them) and \<open>companies\<close>
  holds \<^verbatim>\<open>{ name: "N/A" }\<close>, whatever the row held under these keys; and for a row with
  none of the three keys the element carries the row. \<open>found\<close> is the recruiter that a
  lookup yields: the parsed body of an ok answer, when it is not \<open>null\<close>. \<open>assigned\<close> adds
  to \<open>extends\<close> the two values: the recruiter's first address and first name when these
  are truthy, and \<open>N/A\<close> otherwise.
\<close>

definition is_save_of :: "save_data \<Rightarrow> row \<Rightarrow> bool" where
  "is_save_of d r =
     (map_of r ''user_id'' = Some (JStr (user_id d)) \<and> map_of r ''job_id'' = Some (JNum (job_id d)))"

definition saved :: "database \<Rightarrow> save_data \<Rightarrow> bool" where
  "saved db d = list_ex (is_save_of d) (tables db ''saved_jobs'')"

definition with_id :: "database \<Rightarrow> js \<Rightarrow> row list" where
  "with_id db jobId = filter (selected db [Eq ''id'' jobId]) (tables db ''jobs'')"

definition lookup_fails :: "fetch_outcome \<Rightarrow> bool" where
  "lookup_fails outcome =
     (case outcome of Unreachable _ \<Rightarrow> True | Answered ok _ \<Rightarrow> \<not> ok)"

definition added_fields :: "string list" where
  "added_fields = [''recruiter_email'', ''recruiter_name'', ''companies'']"

definition original_part :: "row \<Rightarrow> row" where
  "original_part r = filter (\<lambda>p. fst p \<notin> set added_fields) r"

definition carries :: "row \<Rightarrow> js \<Rightarrow> bool" where
  "carries job element =
     (case element of
        JObj out \<Rightarrow>
          take (length job) out = job
          \<and> map fst (drop (length job) out) = added_fields
          \<and> map_of (drop (length job) out) ''companies'' = Some (JObj [(''name'', JStr ''N/A'')])
      | _ \<Rightarrow> False)"

definition extends :: "row \<Rightarrow> js \<Rightarrow> bool" where
  "extends job element =
     (case element of
        JObj out \<Rightarrow>
          map fst out = map fst job @ filter (\<lambda>k. map_of job k = None) added_fields
          \<and> original_part out = original_part job
          \<and> js_truthy (field ''recruiter_email'' out)
          \<and> js_truthy (field ''recruiter_name'' out)
          \<and> map_of out ''companies'' = Some (JObj [(''name'', JStr ''N/A'')])
          \<and> (if list_all (\<lambda>k. map_of job k = None) added_fields
             then carries job element else True)
      | _ \<Rightarrow> False)"

definition found :: "fetch_outcome \<Rightarrow> js option" where
  "found outcome =
     (case outcome of
        Unreachable _ \<Rightarrow> None
      | Answered ok payload \<Rightarrow>
          (case payload of
             None \<Rightarrow> None
           | Some recruiter \<Rightarrow> if ok \<and> \<not> nullish recruiter then Some recruiter else None))"

definition assigned :: "(js \<Rightarrow> fetch_outcome) \<Rightarrow> row \<Rightarrow> js \<Rightarrow> bool" where
  "assigned clerk job element =
     (extends job element
      \<and> property ''recruiter_email'' element
          = (case found (clerk (field ''recruiter_id'' job)) of
               None \<Rightarrow> JStr ''N/A''
             | Some recruiter \<Rightarrow> js_or (email_of recruiter) (JStr ''N/A''))
      \<and> property ''recruiter_name'' element
          = (case found (clerk (field ''recruiter_id'' job)) of
               None \<Rightarrow> JStr ''N/A''
             | Some recruiter \<Rightarrow> js_or (property ''first_name'' recruiter) (JStr ''N/A'')))"

definition plain_database :: "(string \<Rightarrow> row list) \<Rightarrow> database" where
  "plain_database ts =
     \<lparr>tables = ts, serial = 1, issued = [], faults = (\<lambda>_. None),
      deletable = (\<lambda>_ _. True), ilike = (\<lambda>_ _. False),
      expand = (\<lambda>cols r. filter (\<lambda>p. fst p = cols) r), before = (\<lambda>_ _. False)\<rparr>"

section \<open>Properties of the router guard\<close>

lemma truthy_is_set: "truthy v = is_set v"
  by (cases v) (simp_all add: truthy_def is_set_def)

lemma role_of_signed_in_user: "role_of (signed_in_user rl) = rl"
  by (cases rl) (simp_all add: role_of_def signed_in_user_def)

text \<open>
  Claim C1. The guard is a total function of the session state, the role, the requested
  path and the destination's required role, and its outcome is the one the first matching
  rule of the decision table gives: suspend while the session loads, then the sign-in
  redirect, then the required-role redirect to \<open>/\<close>, then the two admin rules, then the
  onboarding redirect, and otherwise the requested destination. The table always has a
  matching rule, so every input has an outcome and none is an error.
\<close>

theorem guard_follows_table:
  "first_match (guard_table isLoaded isSignedIn (role_of u) pathname requiredRole children)
     = Some (decision_of (ProtectedRoute isLoaded isSignedIn u pathname requiredRole children))"
  by (auto simp add: guard_table_def ProtectedRoute_def truthy_is_set Let_def)

theorem guard_follows_table_witness:
  "first_match (guard_table True True (Some ''candidate'') ''/jobs'' None (''JobListing''))
     = Some (Render ''JobListing'')
   \<and> ProtectedRoute True True (signed_in_user (Some ''candidate'')) ''/jobs'' None ''JobListing''
     = Children ''JobListing''"
  using guard_follows_table [of True True "signed_in_user (Some ''candidate'')" "''/jobs''" None
      "''JobListing''"]
  by (simp add: role_of_signed_in_user ProtectedRoute_def truthy_def)

text \<open>
  Claim C2, as the component has it. A destination's required role is checked before the
  admin rules, so an admin asking for a destination that requires another role is sent to
  \<open>/\<close>, not to \<open>/admin\<close>.
\<close>

theorem admin_required_role_counterexample:
  "ProtectedRoute True True (signed_in_user (Some ''admin'')) ''/post-job'' (Some ''recruiter'')
     ''PostJob'' = Navigate ''/'' True
   \<and> decision_of (ProtectedRoute True True (signed_in_user (Some ''admin'')) ''/post-job''
     (Some ''recruiter'') ''PostJob'') \<noteq> RedirectTo ''/admin''"
  by (simp add: ProtectedRoute_def role_of_signed_in_user truthy_def)

text \<open>
  Claim C2, amended. For a signed-in, loaded principal with role \<open>admin\<close>, the guard applied
  to a path other than \<open>/admin\<close> never renders the requested page: it redirects to
  \<open>/admin\<close> when the destination declares no required role or the required role
  \<open>admin\<close>, and to \<open>/\<close> when it declares another required role. For a principal with any
  other role the guard applied to \<open>/admin\<close> redirects to \<open>/\<close>. Together: whenever the
  guard renders, the path is \<open>/admin\<close> exactly when the role is \<open>admin\<close>.
\<close>

theorem admin_confinement:
  "(role_of u = Some ''admin'' \<and> pathname \<noteq> ''/admin'' \<longrightarrow>
      ProtectedRoute True True u pathname requiredRole children
        = (if is_set requiredRole \<and> requiredRole \<noteq> Some ''admin''
           then Navigate ''/'' True else Navigate ''/admin'' False))
   \<and> (role_of u \<noteq> Some ''admin'' \<longrightarrow>
      ProtectedRoute True True u ''/admin'' requiredRole children = Navigate ''/'' True)
   \<and> (ProtectedRoute True True u pathname requiredRole children = Children c \<longrightarrow>
      (pathname = ''/admin'') = (role_of u = Some ''admin''))"
  by (auto simp add: ProtectedRoute_def truthy_is_set Let_def split: if_splits)

theorem admin_confinement_witness:
  "ProtectedRoute True True (signed_in_user (Some ''admin'')) ''/jobs'' None ''JobListing''
     = Navigate ''/admin'' False
   \<and> ProtectedRoute True True (signed_in_user (Some ''recruiter'')) ''/admin'' (Some ''admin'')
     ''AdminPage'' = Navigate ''/'' True
   \<and> ProtectedRoute True True (signed_in_user (Some ''admin'')) ''/admin'' (Some ''admin'')
     ''AdminPage'' = Children ''AdminPage''"
  using admin_confinement [of "signed_in_user (Some ''admin'')" "''/jobs''" None "''JobListing''"]
    admin_confinement [of "signed_in_user (Some ''recruiter'')" "''/admin''" "Some ''admin''"
      "''AdminPage''"]
  by (simp add: role_of_signed_in_user is_set_def ProtectedRoute_def truthy_def)

text \<open>
  Claim C3, as the component has it. The admin rule for principals that are not admins
  comes before the onboarding rule, so a principal without a role asking for \<open>/admin\<close>
  is sent to \<open>/\<close>, not to \<open>/onboarding\<close> (with the route's required role \<open>admin\<close>, as
  the application declares it, and without one); and with the role then set to
  \<open>candidate\<close> the same navigation, to a destination that declares no required role, is
  still a redirect to \<open>/\<close>.
\<close>

theorem no_role_admin_path_counterexample:
  "ProtectedRoute True True (signed_in_user None) ''/admin'' (Some ''admin'') ''AdminPage''
     = Navigate ''/'' True
   \<and> ProtectedRoute True True (signed_in_user None) ''/admin'' None ''AdminPage''
     = Navigate ''/'' True
   \<and> ProtectedRoute True True (signed_in_user (Some ''candidate'')) ''/admin'' None ''AdminPage''
     = Navigate ''/'' True"
  by (simp add: ProtectedRoute_def role_of_signed_in_user truthy_def)

text \<open>
  Claim C3, amended. For a signed-in, loaded principal whose role is unset, the guard
  applied to any destination other than \<open>/onboarding\<close> never renders it: it redirects to
  \<open>/onboarding\<close> when the destination is not \<open>/admin\<close> and declares no required role, and
  to \<open>/\<close> otherwise. Once the role is set to a value other than \<open>admin\<close>, the navigation
  to a destination other than \<open>/admin\<close> that declares no required role, or the
  principal's own, renders the requested destination.
\<close>

theorem no_role_confinement:
  "(\<not> is_set (role_of u) \<and> pathname \<noteq> ''/onboarding'' \<longrightarrow>
      ProtectedRoute True True u pathname requiredRole children
        = (if is_set requiredRole \<or> pathname = ''/admin''
           then Navigate ''/'' True else Navigate ''/onboarding'' False))
   \<and> (is_set (role_of u') \<and> role_of u' \<noteq> Some ''admin'' \<and> pathname \<noteq> ''/admin''
        \<and> (\<not> is_set requiredRole \<or> requiredRole = role_of u') \<longrightarrow>
      ProtectedRoute True True u' pathname requiredRole children = Children children)"
  by (auto simp add: ProtectedRoute_def truthy_is_set Let_def is_set_def)

theorem no_role_confinement_witness:
  "ProtectedRoute True True (signed_in_user None) ''/jobs'' None ''JobListing''
     = Navigate ''/onboarding'' False
   \<and> ProtectedRoute True True (signed_in_user (Some ''candidate'')) ''/jobs'' None ''JobListing''
     = Children ''JobListing''"
  using no_role_confinement [of "signed_in_user None" "''/jobs''" None "''JobListing''"
      "signed_in_user (Some ''candidate'')"]
  by (simp add: role_of_signed_in_user is_set_def)

section \<open>Properties of role assignment\<close>

text \<open>
  Claim C4. For every role value chosen, the handler passes \<open>{role}\<close> to the session
  provider's update call. When the update succeeds the profile carries that role and the
  handler navigates to \<open>/post-job\<close> for \<open>recruiter\<close> and to \<open>/jobs\<close> for any other
  value. When the update fails the handler logs the error and changes nothing else: no
  navigation happens and the profile is as it was.
\<close>

theorem role_selection_contract:
  "(update None [''role'' \<mapsto> rl] (user p) = Inr (user (handleRoleSelection None rl p))
      \<and> role_of (Some (user (handleRoleSelection None rl p))) = Some rl
      \<and> history (handleRoleSelection None rl p)
          = (if rl = ''recruiter'' then ''/post-job'' else ''/jobs'') # history p)
   \<and> (handleRoleSelection (Some err) rl p
          = p\<lparr>console := console p @ [ConsoleError ''Error updating role:'' err]\<rparr>
      \<and> history (handleRoleSelection (Some err) rl p) = history p
      \<and> user (handleRoleSelection (Some err) rl p) = user p)"
  by (simp add: handleRoleSelection_def update_def navigateUser_def navigate_def role_of_def)

theorem role_selection_contract_witness:
  "history (handleRoleSelection None ''candidate''
      \<lparr>user = \<lparr>unsafeMetadata = None\<rparr>, history = [''/onboarding''], console = []\<rparr>)
     = [''/jobs'', ''/onboarding'']
   \<and> history (handleRoleSelection (Some ''network'') ''candidate''
      \<lparr>user = \<lparr>unsafeMetadata = None\<rparr>, history = [''/onboarding''], console = []\<rparr>)
     = [''/onboarding'']"
  using role_selection_contract [of "''candidate''"
      "\<lparr>user = \<lparr>unsafeMetadata = None\<rparr>, history = [''/onboarding''], console = []\<rparr>"
      "''network''"]
  by simp

text \<open>
  Claim C8. Choosing \<open>recruiter\<close> twice in succession, both updates succeeding, leaves the
  profile as one choice does, with role \<open>recruiter\<close>, and each of the two invocations
  navigates to \<open>/post-job\<close>.
\<close>

theorem role_selection_idempotent:
  "user (handleRoleSelection None ''recruiter'' (handleRoleSelection None ''recruiter'' p))
     = user (handleRoleSelection None ''recruiter'' p)
   \<and> role_of (Some (user (handleRoleSelection None ''recruiter''
        (handleRoleSelection None ''recruiter'' p)))) = Some ''recruiter''
   \<and> history (handleRoleSelection None ''recruiter'' p) = ''/post-job'' # history p
   \<and> history (handleRoleSelection None ''recruiter'' (handleRoleSelection None ''recruiter'' p))
     = ''/post-job'' # ''/post-job'' # history p"
  by (simp add: handleRoleSelection_def update_def navigateUser_def navigate_def role_of_def)

theorem role_selection_idempotent_witness:
  "user (handleRoleSelection None ''recruiter'' (handleRoleSelection None ''recruiter''
      \<lparr>user = \<lparr>unsafeMetadata = None\<rparr>, history = [''/onboarding''], console = []\<rparr>))
     = \<lparr>unsafeMetadata = Some [''role'' \<mapsto> ''recruiter'']\<rparr>"
  using role_selection_idempotent
    [of "\<lparr>user = \<lparr>unsafeMetadata = None\<rparr>, history = [''/onboarding''], console = []\<rparr>"]
  by (simp add: handleRoleSelection_def update_def navigateUser_def navigate_def)

section \<open>Properties of the data-access wrappers and the server\<close>

lemma selected_pair:
  "selected db [Eq ''user_id'' (JStr (user_id d)), Eq ''job_id'' (JNum (job_id d))] = is_save_of d"
  "selected db [Eq ''job_id'' (JNum (job_id d)), Eq ''user_id'' (JStr (user_id d))] = is_save_of d"
  by (auto simp add: selected_def is_save_of_def fun_eq_iff)

lemma saved_filter: "saved db d = (filter (is_save_of d) (tables db ''saved_jobs'') \<noteq> [])"
  by (auto simp add: saved_def list_ex_iff filter_empty_conv)

lemma saveJob_saved:
  assumes "faults db = (\<lambda>_. None)" "deletable db ''saved_jobs'' = (\<lambda>_. True)" "saved db d"
  shows "saveJob exec d db =
     (Inr (JArr []),
      db\<lparr>issued := issued db @
           [Select ''saved_jobs'' ''id''
              [Eq ''user_id'' (JStr (user_id d)), Eq ''job_id'' (JNum (job_id d))] None,
            Delete ''saved_jobs''
              [Eq ''job_id'' (JNum (job_id d)), Eq ''user_id'' (JStr (user_id d))] False],
         tables := (tables db)(''saved_jobs'' :=
           filter (\<lambda>r. \<not> is_save_of d r) (tables db ''saved_jobs''))\<rparr>)"
  using assms
  by (simp add: saveJob_def exec_def Let_def selected_pair saved_filter ordered_def)

lemma saveJob_unsaved:
  assumes "faults db = (\<lambda>_. None)" "\<not> saved db d"
  shows "saveJob exec d db =
     (Inr (JArr [JObj [(''id'', JNum (int (serial db))), (''user_id'', JStr (user_id d)),
                       (''job_id'', JNum (job_id d))]]),
      db\<lparr>issued := issued db @
           [Select ''saved_jobs'' ''id''
              [Eq ''user_id'' (JStr (user_id d)), Eq ''job_id'' (JNum (job_id d))] None,
            Insert ''saved_jobs''
              [[(''user_id'', JStr (user_id d)), (''job_id'', JNum (job_id d))]] True],
         tables := (tables db)(''saved_jobs'' := tables db ''saved_jobs'' @
           [[(''id'', JNum (int (serial db))), (''user_id'', JStr (user_id d)),
             (''job_id'', JNum (job_id d))]]),
         serial := serial db + 1\<rparr>)"
  using assms
  by (simp add: saveJob_def exec_def Let_def selected_pair saved_filter ordered_def rows_value_def)

lemma saved_after_unsave: "\<not> list_ex P (filter (\<lambda>r. \<not> P r) rs)"
  by (simp add: list_ex_iff)

text \<open>
  Claim C5. For every pair of a user id and a job id and every state of the saved-jobs
  table, with the database answering every query and letting the caller delete its rows:
  \<open>saveJob\<close> first asks for the save records of the pair; if there is one it then issues
  the delete for the pair, which removes them, and returns the empty array (unsaved); if
  there is none it inserts one record and returns it (saved). So two calls in sequence for
  the same pair bring the pair back to the saved or unsaved state it was in.
\<close>

theorem save_toggle:
  assumes "faults db = (\<lambda>_. None)" and "deletable db ''saved_jobs'' = (\<lambda>_. True)"
  shows "(saved db d \<longrightarrow>
            fst (saveJob exec d db) = Inr (JArr [])
          \<and> issued (snd (saveJob exec d db)) = issued db @
              [Select ''saved_jobs'' ''id''
                 [Eq ''user_id'' (JStr (user_id d)), Eq ''job_id'' (JNum (job_id d))] None,
               Delete ''saved_jobs''
                 [Eq ''job_id'' (JNum (job_id d)), Eq ''user_id'' (JStr (user_id d))] False]
          \<and> tables (snd (saveJob exec d db)) ''saved_jobs''
              = filter (\<lambda>r. \<not> is_save_of d r) (tables db ''saved_jobs'')
          \<and> \<not> saved (snd (saveJob exec d db)) d)
       \<and> (\<not> saved db d \<longrightarrow>
            (\<exists>r. fst (saveJob exec d db) = Inr (JArr [JObj r]) \<and> is_save_of d r
                \<and> tables (snd (saveJob exec d db)) ''saved_jobs''
                    = tables db ''saved_jobs'' @ [r])
          \<and> issued (snd (saveJob exec d db)) = issued db @
              [Select ''saved_jobs'' ''id''
                 [Eq ''user_id'' (JStr (user_id d)), Eq ''job_id'' (JNum (job_id d))] None,
               Insert ''saved_jobs''
                 [[(''user_id'', JStr (user_id d)), (''job_id'', JNum (job_id d))]] True]
          \<and> saved (snd (saveJob exec d db)) d)
       \<and> saved (snd (saveJob exec d (snd (saveJob exec d db)))) d = saved db d"
proof -
  have del: "saved db' d \<Longrightarrow> faults db' = (\<lambda>_. None) \<Longrightarrow> deletable db' ''saved_jobs'' = (\<lambda>_. True)
      \<Longrightarrow> fst (saveJob exec d db') = Inr (JArr [])
        \<and> issued (snd (saveJob exec d db')) = issued db' @
              [Select ''saved_jobs'' ''id''
                 [Eq ''user_id'' (JStr (user_id d)), Eq ''job_id'' (JNum (job_id d))] None,
               Delete ''saved_jobs''
                 [Eq ''job_id'' (JNum (job_id d)), Eq ''user_id'' (JStr (user_id d))] False]
        \<and> tables (snd (saveJob exec d db')) ''saved_jobs''
              = filter (\<lambda>r. \<not> is_save_of d r) (tables db' ''saved_jobs'')
        \<and> \<not> saved (snd (saveJob exec d db')) d
        \<and> faults (snd (saveJob exec d db')) = (\<lambda>_. None)
        \<and> deletable (snd (saveJob exec d db')) ''saved_jobs'' = (\<lambda>_. True)" for db'
    by (simp add: saveJob_saved saved_def saved_after_unsave)
  have ins: "\<not> saved db' d \<Longrightarrow> faults db' = (\<lambda>_. None) \<Longrightarrow> deletable db' ''saved_jobs'' = (\<lambda>_. True)
      \<Longrightarrow> (\<exists>r. fst (saveJob exec d db') = Inr (JArr [JObj r]) \<and> is_save_of d r
                \<and> tables (snd (saveJob exec d db')) ''saved_jobs''
                    = tables db' ''saved_jobs'' @ [r])
        \<and> issued (snd (saveJob exec d db')) = issued db' @
              [Select ''saved_jobs'' ''id''
                 [Eq ''user_id'' (JStr (user_id d)), Eq ''job_id'' (JNum (job_id d))] None,
               Insert ''saved_jobs''
                 [[(''user_id'', JStr (user_id d)), (''job_id'', JNum (job_id d))]] True]
        \<and> saved (snd (saveJob exec d db')) d
        \<and> faults (snd (saveJob exec d db')) = (\<lambda>_. None)
        \<and> deletable (snd (saveJob exec d db')) ''saved_jobs'' = (\<lambda>_. True)" for db'
    by (simp add: saveJob_unsaved saved_def is_save_of_def)
  show ?thesis
  proof (cases "saved db d")
    case True
    from del [OF True assms] ins [of "snd (saveJob exec d db)"] True
    show ?thesis by simp
  next
    case False
    from ins [OF False assms] del [of "snd (saveJob exec d db)"] False
    show ?thesis by simp
  qed
qed

theorem save_toggle_witness:
  "saved (plain_database (\<lambda>t. if t = ''saved_jobs''
       then [[(''id'', JNum 1), (''user_id'', JStr ''u1''), (''job_id'', JNum 7)]] else []))
     \<lparr>user_id = ''u1'', job_id = 7\<rparr>
   \<and> fst (saveJob exec \<lparr>user_id = ''u1'', job_id = 7\<rparr>
       (plain_database (\<lambda>t. if t = ''saved_jobs''
          then [[(''id'', JNum 1), (''user_id'', JStr ''u1''), (''job_id'', JNum 7)]] else [])))
     = Inr (JArr [])
   \<and> \<not> saved (plain_database (\<lambda>t. [])) \<lparr>user_id = ''u1'', job_id = 7\<rparr>
   \<and> fst (saveJob exec \<lparr>user_id = ''u1'', job_id = 7\<rparr> (plain_database (\<lambda>t. [])))
     = Inr (JArr [JObj [(''id'', JNum 1), (''user_id'', JStr ''u1''), (''job_id'', JNum 7)]])
   \<and> saved (snd (saveJob exec \<lparr>user_id = ''u1'', job_id = 7\<rparr>
       (snd (saveJob exec \<lparr>user_id = ''u1'', job_id = 7\<rparr>
         (plain_database (\<lambda>t. if t = ''saved_jobs''
            then [[(''id'', JNum 1), (''user_id'', JStr ''u1''), (''job_id'', JNum 7)]] else []))))))
     \<lparr>user_id = ''u1'', job_id = 7\<rparr>"
  using save_toggle [of "plain_database (\<lambda>t. if t = ''saved_jobs''
       then [[(''id'', JNum 1), (''user_id'', JStr ''u1''), (''job_id'', JNum 7)]] else [])"
      "\<lparr>user_id = ''u1'', job_id = 7\<rparr>"]
    save_toggle [of "plain_database (\<lambda>t. [])" "\<lparr>user_id = ''u1'', job_id = 7\<rparr>"]
  by (simp add: plain_database_def saved_def is_save_of_def saveJob_def exec_def selected_def
      ordered_def project_def rows_value_def Let_def)

lemma matches_ilike: "ilike db' = ilike db \<Longrightarrow> matches db' r = matches db r"
proof
  fix f assume "ilike db' = ilike db"
  then show "matches db' r f = matches db r f" by (cases f) simp_all
qed

lemma selected_ilike:
  assumes "ilike db' = ilike db"
  shows "selected db' = selected db"
proof (intro ext)
  fix fs r
  show "selected db' fs r = selected db fs r"
    by (simp add: selected_def matches_ilike [OF assms])
qed

lemma selected_issued [simp]: "selected (db\<lparr>issued := qs\<rparr>) = selected db"
  by (rule selected_ilike) simp

lemma delete_job_not_found:
  assumes "with_id db jobId = []"
    and "\<forall>m. faults db (Select ''jobs'' ''*'' [Eq ''id'' jobId] None) \<noteq> Some (Rejects m)"
  shows "api_delete_job exec jobId db =
     (\<lparr>status = 404, body = JObj [(''error'', JStr ''Job not found'')]\<rparr>,
      db\<lparr>issued := issued db @ [Select ''jobs'' ''*'' [Eq ''id'' jobId] None]\<rparr>)"
proof (cases "faults db (Select ''jobs'' ''*'' [Eq ''id'' jobId] None)")
  case None
  with assms show ?thesis
    by (simp add: api_delete_job_def single_def exec_def with_id_def ordered_def)
next
  case (Some f)
  with assms show ?thesis
    by (cases f) (simp_all add: api_delete_job_def single_def exec_def)
qed

lemma delete_job_done:
  assumes "with_id db jobId = [job]" and "faults db = (\<lambda>_. None)" and "deletable db ''jobs'' job"
  shows "api_delete_job exec jobId db =
     (\<lparr>status = 200,
       body = JObj [(''message'', JStr ''Job deleted successfully''),
                    (''deletedJob'', JObj job), (''rowsAffected'', JNum 1)]\<rparr>,
      db\<lparr>issued := issued db @ [Select ''jobs'' ''*'' [Eq ''id'' jobId] None,
                                Delete ''jobs'' [Eq ''id'' jobId] True],
         tables := (tables db)(''jobs'' :=
           filter (\<lambda>r. \<not> selected db [Eq ''id'' jobId] r) (tables db ''jobs''))\<rparr>)"
proof -
  have job: "selected db [Eq ''id'' jobId] job" "job \<in> set (tables db ''jobs'')"
    using assms(1) filter_eq_ConsD [of "selected db [Eq ''id'' jobId]" "tables db ''jobs''" job "[]"]
    by (auto simp add: with_id_def)
  have gone: "filter (\<lambda>r. selected db [Eq ''id'' jobId] r \<and> deletable db ''jobs'' r) (tables db ''jobs'')
      = [job]"
  proof -
    have "filter (\<lambda>r. selected db [Eq ''id'' jobId] r \<and> deletable db ''jobs'' r) (tables db ''jobs'')
      = filter (deletable db ''jobs'') (with_id db jobId)"
      by (simp add: with_id_def conj_commute)
    then show ?thesis using assms by simp
  qed
  have kept: "filter (\<lambda>r. selected db [Eq ''id'' jobId] r \<longrightarrow> \<not> deletable db ''jobs'' r) (tables db ''jobs'')
      = filter (\<lambda>r. \<not> selected db [Eq ''id'' jobId] r) (tables db ''jobs'')"
  proof (rule filter_cong [OF refl])
    fix r assume "r \<in> set (tables db ''jobs'')"
    moreover have "set (with_id db jobId) = {job}" using assms(1) by simp
    ultimately have "selected db [Eq ''id'' jobId] r \<Longrightarrow> r = job"
      by (auto simp add: with_id_def)
    then show "(selected db [Eq ''id'' jobId] r \<longrightarrow> \<not> deletable db ''jobs'' r)
        = (\<not> selected db [Eq ''id'' jobId] r)"
      using assms(3) by auto
  qed
  from assms(2) show ?thesis
    using assms(1)
    by (simp add: api_delete_job_def single_def exec_def ordered_def project_def
        with_id_def [symmetric] gone kept)
qed

lemma delete_job_no_rows:
  assumes "with_id db jobId = [job]" and "faults db = (\<lambda>_. None)" and "\<not> deletable db ''jobs'' job"
  shows "api_delete_job exec jobId db =
     (\<lparr>status = 500, body = JObj [(''error'', JStr ''Job deletion failed - no rows affected'')]\<rparr>,
      db\<lparr>issued := issued db @ [Select ''jobs'' ''*'' [Eq ''id'' jobId] None,
                                Delete ''jobs'' [Eq ''id'' jobId] True],
         tables := (tables db)(''jobs'' := tables db ''jobs'')\<rparr>)"
proof -
  have gone: "filter (\<lambda>r. selected db [Eq ''id'' jobId] r \<and> deletable db ''jobs'' r) (tables db ''jobs'')
      = []"
  proof -
    have "filter (\<lambda>r. selected db [Eq ''id'' jobId] r \<and> deletable db ''jobs'' r) (tables db ''jobs'')
      = filter (deletable db ''jobs'') (with_id db jobId)"
      by (simp add: with_id_def conj_commute)
    then show ?thesis using assms by simp
  qed
  have kept: "filter (\<lambda>r. selected db [Eq ''id'' jobId] r \<longrightarrow> \<not> deletable db ''jobs'' r) (tables db ''jobs'')
      = tables db ''jobs''"
    using gone by (auto simp add: filter_empty_conv filter_id_conv)
  from assms(2) show ?thesis
    using assms(1)
    by (simp add: api_delete_job_def single_def exec_def ordered_def project_def
        with_id_def [symmetric] gone kept)
qed

text \<open>
  Claim C6. For every job id: if no job row has that id (and the existence check is
  answered at all), the handler responds 404 with \<open>Job not found\<close> and the only query it
  issues is the existence check, so the tables are as they were; if exactly one row has
  that id and the delete goes through, it responds 200 with the row as it was before
  (\<open>deletedJob\<close>) and \<open>rowsAffected = 1\<close>, and the row is gone; if the existence check
  passes but the delete affects no row, it responds 500, which is not the 404 of the first
  case.
\<close>

theorem delete_job_contract:
  "(with_id db jobId = []
      \<and> (\<forall>m. faults db (Select ''jobs'' ''*'' [Eq ''id'' jobId] None) \<noteq> Some (Rejects m)) \<longrightarrow>
        fst (api_delete_job exec jobId db)
          = \<lparr>status = 404, body = JObj [(''error'', JStr ''Job not found'')]\<rparr>
      \<and> tables (snd (api_delete_job exec jobId db)) = tables db
      \<and> issued (snd (api_delete_job exec jobId db))
          = issued db @ [Select ''jobs'' ''*'' [Eq ''id'' jobId] None])
   \<and> (with_id db jobId = [job] \<and> faults db = (\<lambda>_. None) \<and> deletable db ''jobs'' job \<longrightarrow>
        fst (api_delete_job exec jobId db)
          = \<lparr>status = 200,
             body = JObj [(''message'', JStr ''Job deleted successfully''),
                          (''deletedJob'', JObj job), (''rowsAffected'', JNum 1)]\<rparr>
      \<and> with_id (snd (api_delete_job exec jobId db)) jobId = []
      \<and> tables (snd (api_delete_job exec jobId db)) ''jobs''
          = filter (\<lambda>r. r \<noteq> job) (tables db ''jobs''))
   \<and> (with_id db jobId = [job] \<and> faults db = (\<lambda>_. None) \<and> \<not> deletable db ''jobs'' job \<longrightarrow>
        fst (api_delete_job exec jobId db)
          = \<lparr>status = 500,
             body = JObj [(''error'', JStr ''Job deletion failed - no rows affected'')]\<rparr>
      \<and> tables (snd (api_delete_job exec jobId db)) = tables db)"
proof -
  have found: "fst (api_delete_job exec jobId db)
          = \<lparr>status = 200,
             body = JObj [(''message'', JStr ''Job deleted successfully''),
                          (''deletedJob'', JObj job), (''rowsAffected'', JNum 1)]\<rparr>
      \<and> with_id (snd (api_delete_job exec jobId db)) jobId = []
      \<and> tables (snd (api_delete_job exec jobId db)) ''jobs''
          = filter (\<lambda>r. r \<noteq> job) (tables db ''jobs'')"
    if a: "with_id db jobId = [job]" "faults db = (\<lambda>_. None)" "deletable db ''jobs'' job"
  proof -
    have only: "selected db [Eq ''id'' jobId] r = (r = job)" if "r \<in> set (tables db ''jobs'')" for r
    proof -
      have "set (with_id db jobId) = {job}" using a by simp
      with that show ?thesis by (auto simp add: with_id_def)
    qed
    have same: "filter (\<lambda>r. \<not> selected db [Eq ''id'' jobId] r) (tables db ''jobs'')
        = filter (\<lambda>r. r \<noteq> job) (tables db ''jobs'')"
      by (rule filter_cong [OF refl]) (simp add: only)
    let ?db = "snd (api_delete_job exec jobId db)"
    have after: "tables ?db ''jobs'' = filter (\<lambda>r. r \<noteq> job) (tables db ''jobs'')"
      "ilike ?db = ilike db"
      by (simp_all add: delete_job_done [OF a] same)
    have "with_id ?db jobId = filter (selected db [Eq ''id'' jobId]) (tables ?db ''jobs'')"
      by (simp only: with_id_def selected_ilike [OF after(2)])
    also have "\<dots> = filter (\<lambda>r. selected db [Eq ''id'' jobId] r \<and> r \<noteq> job) (tables db ''jobs'')"
      by (simp add: after(1) conj_commute)
    also have "\<dots> = []"
      by (simp add: filter_empty_conv only)
    finally show ?thesis
      by (simp add: after(1)) (simp add: delete_job_done [OF a])
  qed
  show ?thesis
    by (intro conjI impI) (simp_all add: delete_job_not_found delete_job_no_rows found)
qed

theorem delete_job_contract_witness:
  "fst (api_delete_job exec (JNum 8)
      (plain_database (\<lambda>t. if t = ''jobs''
         then [[(''id'', JNum 7), (''title'', JStr ''Engineer'')]] else [])))
     = \<lparr>status = 404, body = JObj [(''error'', JStr ''Job not found'')]\<rparr>
   \<and> fst (api_delete_job exec (JNum 7)
      (plain_database (\<lambda>t. if t = ''jobs''
         then [[(''id'', JNum 7), (''title'', JStr ''Engineer'')]] else [])))
     = \<lparr>status = 200,
        body = JObj [(''message'', JStr ''Job deleted successfully''),
                     (''deletedJob'', JObj [(''id'', JNum 7), (''title'', JStr ''Engineer'')]),
                     (''rowsAffected'', JNum 1)]\<rparr>
   \<and> fst (api_delete_job exec (JNum 7)
      ((plain_database (\<lambda>t. if t = ''jobs''
         then [[(''id'', JNum 7), (''title'', JStr ''Engineer'')]] else []))
       \<lparr>deletable := (\<lambda>_ _. False)\<rparr>))
     = \<lparr>status = 500,
        body = JObj [(''error'', JStr ''Job deletion failed - no rows affected'')]\<rparr>"
  using delete_job_contract [of
      "plain_database (\<lambda>t. if t = ''jobs''
         then [[(''id'', JNum 7), (''title'', JStr ''Engineer'')]] else [])"
      "JNum 8" "[]"]
    delete_job_contract [of
      "plain_database (\<lambda>t. if t = ''jobs''
         then [[(''id'', JNum 7), (''title'', JStr ''Engineer'')]] else [])"
      "JNum 7" "[(''id'', JNum 7), (''title'', JStr ''Engineer'')]"]
    delete_job_contract [of
      "(plain_database (\<lambda>t. if t = ''jobs''
         then [[(''id'', JNum 7), (''title'', JStr ''Engineer'')]] else []))
       \<lparr>deletable := (\<lambda>_ _. False)\<rparr>"
      "JNum 7" "[(''id'', JNum 7), (''title'', JStr ''Engineer'')]"]
  by (simp add: plain_database_def with_id_def selected_def)

lemma set_place: "set (place db k asc r xs) = insert r (set xs)"
  by (induction xs) auto

lemma set_ordered: "set (ordered db ord rs) = set rs"
proof (cases ord)
  case None
  then show ?thesis by (simp add: ordered_def)
next
  case (Some a)
  obtain k asc where a: "a = (k, asc)" by (cases a)
  have "set (foldr (place db k asc) rs []) = set rs"
    by (induction rs) (simp_all add: set_place)
  with Some a show ?thesis by (simp add: ordered_def)
qed

lemma ordered_empty: "(ordered db ord rs = []) = (rs = [])"
  using set_ordered [of db ord rs] by (metis set_empty)

lemma project_star: "map (project db ''*'') rs = rs"
  by (induction rs) (simp_all add: project_def)

lemma original_part_update:
  "k \<in> set added_fields \<Longrightarrow> original_part (AList.update k v r) = original_part r"
  by (induction r) (auto simp add: original_part_def)

lemma update_absent: "map_of r k = None \<Longrightarrow> AList.update k v r = r @ [(k, v)]"
  by (induction r) (auto split: if_splits)

lemma enriched_absent:
  assumes "list_all (\<lambda>k. map_of job k = None) added_fields"
  shows "enriched job e n
     = JObj (job @ [(''recruiter_email'', e), (''recruiter_name'', n),
                    (''companies'', JObj [(''name'', JStr ''N/A'')])])"
  using assms by (simp add: enriched_def added_fields_def update_absent)

lemma keys_enriched:
  "map fst (AList.update ''companies'' c
      (AList.update ''recruiter_name'' n (AList.update ''recruiter_email'' e job)))
     = map fst job @ filter (\<lambda>k. map_of job k = None) added_fields"
  by (auto simp add: update_keys added_fields_def map_of_eq_None_iff)

lemma carries_enriched:
  assumes "list_all (\<lambda>k. map_of job k = None) added_fields"
  shows "carries job (enriched job e n)"
  by (simp add: enriched_absent [OF assms] carries_def added_fields_def)

lemma property_enriched:
  "property ''recruiter_email'' (enriched job e n) = e"
  "property ''recruiter_name'' (enriched job e n) = n"
  by (simp_all add: enriched_def field_def update_conv')

lemma extends_enriched:
  assumes "js_truthy e" and "js_truthy n"
  shows "extends job (enriched job e n)"
proof -
  let ?out = "AList.update ''companies'' (JObj [(''name'', JStr ''N/A'')])
      (AList.update ''recruiter_name'' n (AList.update ''recruiter_email'' e job))"
  have shape: "enriched job e n = JObj ?out"
    by (simp add: enriched_def)
  have other: "original_part ?out = original_part job"
    by (simp add: original_part_update added_fields_def)
  have held: "field ''recruiter_email'' ?out = e" "field ''recruiter_name'' ?out = n"
    "map_of ?out ''companies'' = Some (JObj [(''name'', JStr ''N/A'')])"
    by (simp_all add: field_def update_conv')
  have whole: "list_all (\<lambda>k. map_of job k = None) added_fields \<Longrightarrow> carries job (JObj ?out)"
    using carries_enriched [of job e n] by (simp only: shape)
  show ?thesis
    using assms other held whole
    unfolding extends_def shape
    by (simp add: keys_enriched)
qed

lemma js_or_truthy: "js_truthy d \<Longrightarrow> js_truthy (js_or v d)"
  by (simp add: js_or_def)

lemma extends_with_recruiter: "extends job (with_recruiter clerk job)"
  by (simp add: with_recruiter_def extends_enriched js_or_truthy
      split: fetch_outcome.split option.split)

lemma carries_with_recruiter:
  "list_all (\<lambda>k. map_of job k = None) added_fields \<Longrightarrow> carries job (with_recruiter clerk job)"
  by (simp add: with_recruiter_def carries_enriched split: fetch_outcome.split option.split)

lemma assigned_with_recruiter: "assigned clerk job (with_recruiter clerk job)"
  unfolding assigned_def
proof (intro conjI)
  show "extends job (with_recruiter clerk job)"
    by (rule extends_with_recruiter)
  show "property ''recruiter_email'' (with_recruiter clerk job)
      = (case found (clerk (field ''recruiter_id'' job)) of
           None \<Rightarrow> JStr ''N/A''
         | Some recruiter \<Rightarrow> js_or (email_of recruiter) (JStr ''N/A''))"
    by (simp add: with_recruiter_def found_def property_enriched
        split: fetch_outcome.split option.split)
  show "property ''recruiter_name'' (with_recruiter clerk job)
      = (case found (clerk (field ''recruiter_id'' job)) of
           None \<Rightarrow> JStr ''N/A''
         | Some recruiter \<Rightarrow> js_or (property ''first_name'' recruiter) (JStr ''N/A''))"
    by (simp add: with_recruiter_def found_def property_enriched
        split: fetch_outcome.split option.split)
qed

lemma with_recruiter_fails:
  "lookup_fails (clerk (field ''recruiter_id'' job))
     \<Longrightarrow> with_recruiter clerk job = enriched job (JStr ''N/A'') (JStr ''N/A'')"
  by (simp add: with_recruiter_def lookup_fails_def split: fetch_outcome.splits)

lemma get_jobs_fetched:
  assumes "supabase (Select ''jobs'' ''*'' [] (Some (''created_at'', False))) s
             = (Inr \<lparr>data = Some jobs, error = None\<rparr>, s')"
  shows "api_get_jobs supabase clerk s
           = (\<lparr>status = 200, body = JArr (map (with_recruiter clerk) jobs)\<rparr>, s')"
  using assms by (cases jobs) (simp_all add: api_get_jobs_def)

lemma exec_listing:
  assumes "faults db (Select ''jobs'' ''*'' [] (Some (''created_at'', False))) = None"
  shows "exec (Select ''jobs'' ''*'' [] (Some (''created_at'', False))) db
     = (Inr \<lparr>data = Some (ordered db (Some (''created_at'', False)) (tables db ''jobs'')),
             error = None\<rparr>,
        db\<lparr>issued := issued db @ [Select ''jobs'' ''*'' [] (Some (''created_at'', False))]\<rparr>)"
  using assms by (simp add: exec_def project_star selected_def)

text \<open>
  Claim C7. For every state of the jobs table that the database lists without an error:
  the handler responds 200 with \<open>[]\<close> when the table is empty; for any job row whose
  recruiter lookup fails (rejected, or answered with a status that is not ok) the response
  is 200 and its array holds that job, with \<open>recruiter_email\<close> and \<open>recruiter_name\<close> both
  \<open>N/A\<close>; and whatever the lookups do, the status is 200.
\<close>

theorem listing_survives_lookup_failure:
  assumes "faults db (Select ''jobs'' ''*'' [] (Some (''created_at'', False))) = None"
  shows "(tables db ''jobs'' = [] \<longrightarrow>
            fst (api_get_jobs exec clerk db) = \<lparr>status = 200, body = JArr []\<rparr>)
       \<and> (job \<in> set (tables db ''jobs'') \<and> lookup_fails (clerk (field ''recruiter_id'' job)) \<longrightarrow>
            (\<exists>elements. fst (api_get_jobs exec clerk db) = \<lparr>status = 200, body = JArr elements\<rparr>
                \<and> enriched job (JStr ''N/A'') (JStr ''N/A'') \<in> set elements)
          \<and> extends job (enriched job (JStr ''N/A'') (JStr ''N/A''))
          \<and> property ''recruiter_email'' (enriched job (JStr ''N/A'') (JStr ''N/A'')) = JStr ''N/A''
          \<and> property ''recruiter_name'' (enriched job (JStr ''N/A'') (JStr ''N/A'')) = JStr ''N/A'')
       \<and> status (fst (api_get_jobs exec clerk db)) = 200"
proof -
  let ?rows = "ordered db (Some (''created_at'', False)) (tables db ''jobs'')"
  have run: "fst (api_get_jobs exec clerk db)
      = \<lparr>status = 200, body = JArr (map (with_recruiter clerk) ?rows)\<rparr>"
    using get_jobs_fetched [where supabase = exec and s = db and clerk = clerk]
      exec_listing [OF assms] by simp
  have empty: "tables db ''jobs'' = [] \<Longrightarrow> ?rows = []"
    by (simp add: ordered_empty)
  have present: "with_recruiter clerk job \<in> set (map (with_recruiter clerk) ?rows)"
    if "job \<in> set (tables db ''jobs'')"
    using that by (simp add: set_ordered)
  have fields: "property ''recruiter_email'' (enriched job (JStr ''N/A'') (JStr ''N/A'')) = JStr ''N/A''"
    "property ''recruiter_name'' (enriched job (JStr ''N/A'') (JStr ''N/A'')) = JStr ''N/A''"
    by (simp_all add: enriched_def field_def update_conv')
  show ?thesis
    using run empty present fields with_recruiter_fails [of clerk job]
      extends_enriched [of "JStr ''N/A''" "JStr ''N/A''" job]
    by auto
qed

theorem listing_survives_lookup_failure_witness:
  "fst (api_get_jobs exec (\<lambda>_. Answered False None)
      (plain_database (\<lambda>t. if t = ''jobs''
         then [[(''id'', JNum 1), (''recruiter_id'', JStr ''u1'')]] else [])))
     = \<lparr>status = 200,
        body = JArr [JObj [(''id'', JNum 1), (''recruiter_id'', JStr ''u1''),
                           (''recruiter_email'', JStr ''N/A''), (''recruiter_name'', JStr ''N/A''),
                           (''companies'', JObj [(''name'', JStr ''N/A'')])]]\<rparr>
   \<and> fst (api_get_jobs exec (\<lambda>_. Answered False None) (plain_database (\<lambda>t. [])))
     = \<lparr>status = 200, body = JArr []\<rparr>"
  using listing_survives_lookup_failure [of
      "plain_database (\<lambda>t. if t = ''jobs''
         then [[(''id'', JNum 1), (''recruiter_id'', JStr ''u1'')]] else [])"
      "\<lambda>_. Answered False None" "[(''id'', JNum 1), (''recruiter_id'', JStr ''u1'')]"]
    listing_survives_lookup_failure [of "plain_database (\<lambda>t. [])" "\<lambda>_. Answered False None" "[]"]
  by (simp add: plain_database_def lookup_fails_def field_def enriched_def api_get_jobs_def
      exec_def ordered_def project_def selected_def with_recruiter_def)

text \<open>
  Claim C10, as the handler has it. The object literal spreads the row and then assigns
  \<open>recruiter_email\<close>, \<open>recruiter_name\<close> and \<open>companies\<close>, so a row that has a column of
  one of these names does not keep its value: a row whose \<open>recruiter_name\<close> is \<open>Grace\<close>,
  its lookup rejected, comes back with \<open>recruiter_name\<close> equal to \<open>N/A\<close>, and the element
  does not carry the row.
\<close>

theorem enrichment_overwrites_counterexample:
  "fst (api_get_jobs scripted (\<lambda>_. Unreachable ''timeout'')
      [Inr \<lparr>data = Some [[(''id'', JNum 1), (''recruiter_id'', JStr ''u9''),
                            (''recruiter_name'', JStr ''Grace'')]],
             error = None\<rparr>])
     = \<lparr>status = 200,
        body = JArr
          [JObj [(''id'', JNum 1), (''recruiter_id'', JStr ''u9''),
                 (''recruiter_name'', JStr ''N/A''), (''recruiter_email'', JStr ''N/A''),
                 (''companies'', JObj [(''name'', JStr ''N/A'')])]]\<rparr>
   \<and> \<not> carries [(''id'', JNum 1), (''recruiter_id'', JStr ''u9''),
                 (''recruiter_name'', JStr ''Grace'')]
          (JObj [(''id'', JNum 1), (''recruiter_id'', JStr ''u9''),
                 (''recruiter_name'', JStr ''N/A''), (''recruiter_email'', JStr ''N/A''),
                 (''companies'', JObj [(''name'', JStr ''N/A'')])])"
  by (simp add: api_get_jobs_def with_recruiter_def enriched_def field_def carries_def
      added_fields_def)

text \<open>
  Claim C10, amended. For every non-empty list of fetched job rows, the response is 200 and
  its array has one element for each fetched row, in the same order, and each element is
  its row with \<open>recruiter_email\<close>, \<open>recruiter_name\<close> and \<open>companies\<close> assigned: the keys
  are the row's, in the row's order, followed by those of the three that the row lacks;
  every property other than the three is unchanged; a value the row itself holds under
  one of the three keys is overwritten; \<open>companies\<close> is always \<^verbatim>\<open>{ name: "N/A" }\<close>;
  \<open>recruiter_email\<close> and \<open>recruiter_name\<close> are the looked-up recruiter's first address
  and first name when these are truthy, and \<open>N/A\<close> otherwise; and an element whose row
  has none of the three keys carries every property of the row unchanged, with only the
  three added.
\<close>

theorem enrichment_frame:
  assumes "supabase (Select ''jobs'' ''*'' [] (Some (''created_at'', False))) s
             = (Inr \<lparr>data = Some jobs, error = None\<rparr>, s')"
    and "jobs \<noteq> []"
  shows "\<exists>elements. fst (api_get_jobs supabase clerk s) = \<lparr>status = 200, body = JArr elements\<rparr>
            \<and> list_all2 (assigned clerk) jobs elements
            \<and> list_all2 (\<lambda>job element. list_all (\<lambda>k. map_of job k = None) added_fields
                  \<longrightarrow> carries job element) jobs elements"
proof -
  have "list_all2 (assigned clerk) jobs (map (with_recruiter clerk) jobs)"
    by (simp add: list_all2_map2 list_all2_same assigned_with_recruiter)
  moreover have "list_all2 (\<lambda>job element. list_all (\<lambda>k. map_of job k = None) added_fields
      \<longrightarrow> carries job element) jobs (map (with_recruiter clerk) jobs)"
    by (simp add: list_all2_map2 list_all2_same carries_with_recruiter)
  ultimately show ?thesis
    using get_jobs_fetched [where supabase = supabase and s = s and clerk = clerk] assms(1)
    by simp
qed

theorem enrichment_frame_witness:
  "fst (api_get_jobs scripted
      (\<lambda>v. if v = JStr ''u1''
            then Answered True (Some (JObj [(''first_name'', JStr ''Ada''),
              (''email_addresses'', JArr [JObj [(''email_address'', JStr ''ada@example.com'')]])]))
            else Unreachable ''timeout'')
      [Inr \<lparr>data = Some [[(''id'', JNum 2), (''recruiter_id'', JStr ''u1'')],
                           [(''id'', JNum 1), (''recruiter_id'', JStr ''u9'')]],
             error = None\<rparr>])
     = \<lparr>status = 200,
        body = JArr
          [JObj [(''id'', JNum 2), (''recruiter_id'', JStr ''u1''),
                 (''recruiter_email'', JStr ''ada@example.com''), (''recruiter_name'', JStr ''Ada''),
                 (''companies'', JObj [(''name'', JStr ''N/A'')])],
           JObj [(''id'', JNum 1), (''recruiter_id'', JStr ''u9''),
                 (''recruiter_email'', JStr ''N/A''), (''recruiter_name'', JStr ''N/A''),
                 (''companies'', JObj [(''name'', JStr ''N/A'')])]]\<rparr>"
  using enrichment_frame [of scripted
      "[Inr \<lparr>data = Some [[(''id'', JNum 2), (''recruiter_id'', JStr ''u1'')],
                           [(''id'', JNum 1), (''recruiter_id'', JStr ''u9'')]],
             error = None\<rparr>]"
      "[[(''id'', JNum 2), (''recruiter_id'', JStr ''u1'')],
        [(''id'', JNum 1), (''recruiter_id'', JStr ''u9'')]]"
      "[]"
      "\<lambda>v. if v = JStr ''u1''
            then Answered True (Some (JObj [(''first_name'', JStr ''Ada''),
              (''email_addresses'', JArr [JObj [(''email_address'', JStr ''ada@example.com'')]])]))
            else Unreachable ''timeout''"]
  by (simp add: api_get_jobs_def with_recruiter_def enriched_def field_def email_of_def
      nullish_def js_or_def)

lemma script_shapes:
  obtains "xs = []" | a where "xs = [a]" | a b rest where "xs = a # b # rest"
  by (cases xs; cases "tl xs") auto

lemma error_never_empty_collection:
  assumes "signals_error c script"
  shows "fst (invoke scripted c script) = Inr JNull \<or> (\<exists>t. fst (invoke scripted c script) = Inl t)"
proof (cases c)
  case (GetJobs l co q)
  with assms show ?thesis
    by (cases script rule: script_shapes)
      (auto simp add: signals_error_def consumed_def failed_def getJobs_def split: sum.splits)
next
  case GetSavedJobs
  with assms show ?thesis
    by (cases script rule: script_shapes)
      (auto simp add: signals_error_def consumed_def failed_def getSavedJobs_def split: sum.splits)
next
  case (GetSingleJob j)
  with assms show ?thesis
    by (cases script rule: script_shapes)
      (auto simp add: signals_error_def consumed_def failed_def getSingleJob_def single_def
        split: sum.splits)
next
  case (SaveJob d)
  with assms show ?thesis
    by (cases script rule: script_shapes)
      (auto simp add: signals_error_def consumed_def failed_def saveJob_def
        split: sum.splits option.splits)
next
  case (UpdateHiringStatus j b)
  with assms show ?thesis
    by (cases script rule: script_shapes)
      (auto simp add: signals_error_def consumed_def failed_def updateHiringStatus_def
        split: sum.splits)
next
  case (GetMyJobs r)
  with assms show ?thesis
    by (cases script rule: script_shapes)
      (auto simp add: signals_error_def consumed_def failed_def getMyJobs_def split: sum.splits)
next
  case (DeleteJob j)
  with assms show ?thesis
    by (cases script rule: script_shapes)
      (auto simp add: signals_error_def consumed_def failed_def deleteJob_def single_def
        split: sum.splits option.splits list.splits)
next
  case (AddNewJob d)
  with assms show ?thesis
    by (cases script rule: script_shapes)
      (auto simp add: signals_error_def consumed_def failed_def addNewJob_def split: sum.splits)
next
  case (ApplyToJob url n d)
  with assms show ?thesis
    by (cases script rule: script_shapes)
      (auto simp add: signals_error_def consumed_def failed_def applyToJob_def Let_def
        split: sum.splits)
next
  case (UpdateApplicationStatus j st)
  with assms show ?thesis
    by (cases script rule: script_shapes)
      (auto simp add: signals_error_def consumed_def failed_def updateApplicationStatus_def
        split: sum.splits option.splits if_splits)
next
  case (GetApplications u)
  with assms show ?thesis
    by (cases script rule: script_shapes)
      (auto simp add: signals_error_def consumed_def failed_def getApplications_def
        split: sum.splits)
qed

text \<open>
  Claim C9, as the wrappers have it. No wrapper of the jobs API or of the applications API
  signals an error by an empty collection: there is no call and no sequence of database
  answers in which an answer carries an error and the wrapper returns \<open>[]\<close>.
\<close>

theorem no_empty_collection_on_error:
  "\<not> (\<exists>c script. signals_error c script \<and> fst (invoke scripted c script) = Inr (JArr []))"
  using error_never_empty_collection by fastforce

text \<open>
  Claim C9, amended. The wrappers of the jobs API and of the applications API use two
  failure conventions: \<open>getJobs\<close> answers a database error by returning \<open>null\<close>;
  \<open>saveJob\<close> and \<open>deleteJob\<close> answer it by throwing; and whenever an answer of the database
  carries an error, every wrapper returns \<open>null\<close> or throws. The empty array is what
  \<open>saveJob\<close> returns after removing a saved job with no error at all.
\<close>

theorem error_conventions:
  "(error r \<noteq> None \<longrightarrow>
      fst (getJobs scripted location company searchQuery (Inr r # rest)) = Inr JNull)
   \<and> (error r = Some e \<longrightarrow>
      fst (saveJob scripted d (Inr r # rest)) = Inl (Raised e)
      \<and> fst (deleteJob scripted j (Inr r # rest)) = Inl (Error (''Job not found: '' @ e)))
   \<and> (signals_error c script \<longrightarrow>
      fst (invoke scripted c script) = Inr JNull \<or> (\<exists>t. fst (invoke scripted c script) = Inl t))
   \<and> fst (saveJob scripted d
        [Inr \<lparr>data = Some [x], error = None\<rparr>, Inr \<lparr>data = None, error = None\<rparr>])
      = Inr (JArr [])
   \<and> \<not> signals_error (SaveJob d)
        [Inr \<lparr>data = Some [x], error = None\<rparr>, Inr \<lparr>data = None, error = None\<rparr>]"
proof -
  have "error r \<noteq> None \<Longrightarrow>
      fst (getJobs scripted location company searchQuery (Inr r # rest)) = Inr JNull"
    by (simp add: getJobs_def)
  moreover have "error r = Some e \<Longrightarrow> fst (saveJob scripted d (Inr r # rest)) = Inl (Raised e)"
    by (simp add: saveJob_def)
  moreover have "error r = Some e \<Longrightarrow>
      fst (deleteJob scripted j (Inr r # rest)) = Inl (Error (''Job not found: '' @ e))"
    by (simp add: deleteJob_def single_def)
  moreover have "fst (saveJob scripted d
        [Inr \<lparr>data = Some [x], error = None\<rparr>, Inr \<lparr>data = None, error = None\<rparr>])
      = Inr (JArr [])"
    by (simp add: saveJob_def)
  moreover have "\<not> signals_error (SaveJob d)
        [Inr \<lparr>data = Some [x], error = None\<rparr>, Inr \<lparr>data = None, error = None\<rparr>]"
    by (simp add: signals_error_def consumed_def saveJob_def failed_def)
  ultimately show ?thesis
    using error_never_empty_collection [of c script] by blast
qed

theorem error_conventions_witness:
  "fst (getJobs scripted None None None [Inr \<lparr>data = None, error = Some ''timeout''\<rparr>])
     = Inr JNull
   \<and> fst (saveJob scripted \<lparr>user_id = ''u1'', job_id = 7\<rparr>
        [Inr \<lparr>data = None, error = Some ''timeout''\<rparr>]) = Inl (Raised ''timeout'')
   \<and> fst (deleteJob scripted (JNum 7) [Inr \<lparr>data = None, error = Some ''timeout''\<rparr>])
     = Inl (Error ''Job not found: timeout'')
   \<and> signals_error (UpdateApplicationStatus (JNum 7) (JStr ''hired''))
        [Inr \<lparr>data = None, error = Some ''timeout''\<rparr>]
   \<and> fst (invoke scripted (UpdateApplicationStatus (JNum 7) (JStr ''hired''))
        [Inr \<lparr>data = None, error = Some ''timeout''\<rparr>]) = Inr JNull"
  using error_conventions [of "\<lparr>data = None, error = Some ''timeout''\<rparr>" None None None "[]"
      "''timeout''" "\<lparr>user_id = ''u1'', job_id = 7\<rparr>" "JNum 7"
      "UpdateApplicationStatus (JNum 7) (JStr ''hired'')"
      "[Inr \<lparr>data = None, error = Some ''timeout''\<rparr>]" "[]"]
  by (simp add: signals_error_def consumed_def updateApplicationStatus_def failed_def)

end
